theory Spec2Isabelle
  imports Main "HOL-Library.Sublist"
begin

section \<open>The request client of routingjs (src/Client.ts)\<close>

text \<open>
  The client is a thin adapter over three collaborators that are not part of the
  repository: the platform's \<^verbatim>\<open>URL\<close> class and \<^verbatim>\<open>JSON.stringify\<close>, the axios
  transport, and the axios-retry library. The embedding keeps the client's own code
  (the constructor and \<^verbatim>\<open>request\<close>) as HOL functions and takes the collaborators as
  parameters, so every theorem below holds for any behaviour of the collaborators.
  A promise is modelled by the value it settles with: \<open>Inr\<close> for the resolved value,
  \<open>Inl\<close> for the rejection reason. Network calls are recorded in a trace.
\<close>

subsection \<open>Values\<close>

text \<open>Plain JavaScript data: parameter objects, response payloads, strings.
  \<^verbatim>\<open>undefined\<close> is not a value of this type; an optional argument is an \<open>option\<close>.\<close>

datatype js_value =
    JNull
  | JBool bool
  | JNumber int
  | JString string
  | JArray "js_value list"
  | JObject "(string \<times> js_value) list"

text \<open>Header values are \<^verbatim>\<open>string | number\<close>; an object is a map from its keys.\<close>

datatype header_value = HeaderString string | HeaderNumber int

type_synonym header_map = "string \<rightharpoonup> header_value"

datatype proxy_setting = ProxyFalse | ProxyConfig string nat

text \<open>The fields of \<^verbatim>\<open>AxiosRequestConfig\<close> the client touches; \<open>None\<close> is an absent
  property, \<open>cfg_rest\<close> holds every other option.\<close>

record axios_request_config =
  cfg_headers :: "header_map option"
  cfg_timeout :: "int option"
  cfg_proxy :: "proxy_setting option"
  cfg_rest :: "(string \<times> js_value) list"

record axios_response =
  res_status :: nat
  res_statusText :: string
  res_data :: js_value

text \<open>The property \<^verbatim>\<open>request\<close> of an error is typed \<^verbatim>\<open>any\<close>. The transport puts its
  live request object there (an \<^verbatim>\<open>XMLHttpRequest\<close> in a browser, a \<^verbatim>\<open>ClientRequest\<close> on
  Node): a host object, which is not plain data and may refer back to itself. A host
  object is known here by the name of its class only.\<close>

datatype js_any = Plain js_value | HostObject string

text \<open>What \<^verbatim>\<open>if (x)\<close> tests: every object is truthy; \<^verbatim>\<open>null\<close>, \<^verbatim>\<open>false\<close>, zero and the
  empty string are not, and neither is \<^verbatim>\<open>undefined\<close>.\<close>

fun truthy :: "js_any \<Rightarrow> bool" where
  "truthy (Plain JNull) = False"
| "truthy (Plain (JBool b)) = b"
| "truthy (Plain (JNumber n)) = (n \<noteq> 0)"
| "truthy (Plain (JString s)) = (s \<noteq> [])"
| "truthy (Plain (JArray xs)) = True"
| "truthy (Plain (JObject kvs)) = True"
| "truthy (HostObject c) = True"

definition truthy_opt :: "js_any option \<Rightarrow> bool" where
  "truthy_opt x = (case x of None \<Rightarrow> False | Some v \<Rightarrow> truthy v)"

text \<open>The reason a transport call rejects with: an error object with the properties the
  handlers read. A plain \<^verbatim>\<open>Error\<close> has neither a response nor a request.\<close>

record axios_error =
  err_name :: string
  err_message :: string
  err_response :: "axios_response option"
  err_request :: "js_any option"

text \<open>What \<^verbatim>\<open>request\<close> can reject with: the two error classes of the repository, the
  \<^verbatim>\<open>TypeError\<close> of the \<^verbatim>\<open>URL\<close> constructor (carrying the rejected input), and the
  \<^verbatim>\<open>TypeError\<close> that \<^verbatim>\<open>JSON.stringify\<close> throws at a value it cannot serialize.\<close>

datatype thrown =
    RoutingJSAPIError string
  | RoutingJSClientError string
  | TypeError_InvalidURL string
  | TypeError_Stringify

subsection \<open>The URL object\<close>

text \<open>A \<^verbatim>\<open>URL\<close> object is its components together with the list of name-value pairs of
  its \<^verbatim>\<open>searchParams\<close>; \<^verbatim>\<open>searchParams.append\<close> adds one pair at the end of that list.\<close>

record url =
  url_components :: string
  searchParams :: "(string \<times> string) list"

definition searchParams_append :: "url \<Rightarrow> string \<Rightarrow> string \<Rightarrow> url" where
  "searchParams_append u k v = u\<lparr>searchParams := searchParams u @ [(k, v)]\<rparr>"

subsection \<open>The module \<^verbatim>\<open>./options\<close> and the axios-retry library\<close>

text \<open>The defaults are imported from a module that is not among the sources; they are a
  parameter of the constructor.\<close>

record options =
  defaultUserAgent :: string
  defaultTimeout :: int
  defaultMaxRetries :: int
  defaultHeaders :: header_map

text \<open>The two names the constructor imports from axios-retry. The delay function is
  opaque (\<open>'d\<close>): the client only passes it on. \<open>merged_retryCondition\<close> is what the
  library makes of the value it is given under the key \<^verbatim>\<open>retryCondition\<close> (\<open>None\<close>:
  \<^verbatim>\<open>undefined\<close>): the predicate it will call, or \<open>None\<close> when it is left without one.\<close>

record 'd axios_retry_lib =
  isNetworkOrIdempotentRequestError :: "axios_error \<Rightarrow> bool"
  exponentialDelay :: 'd
  merged_retryCondition :: "(axios_error \<Rightarrow> bool) option \<Rightarrow> (axios_error \<Rightarrow> bool) option"

record 'd IAxiosRetryConfig =
  retries :: int
  retryCondition :: "(axios_error \<Rightarrow> bool) option"
  retryDelay :: 'd
  onRetry :: "nat \<Rightarrow> axios_error \<Rightarrow> string"

text \<open>An axios instance is what it was created with and the retry options installed on it.\<close>

record 'd axios_instance =
  inst_config :: axios_request_config
  inst_retry :: "'d IAxiosRetryConfig option"

definition axios_create :: "axios_request_config \<Rightarrow> 'd axios_instance" where
  "axios_create cfg = \<lparr>inst_config = cfg, inst_retry = None\<rparr>"

definition axiosRetry :: "'d axios_instance \<Rightarrow> 'd IAxiosRetryConfig \<Rightarrow> 'd axios_instance" where
  "axiosRetry inst opts = inst\<lparr>inst_retry := Some opts\<rparr>"

subsection \<open>Template literals\<close>

definition newline :: string where
  "newline = [CHR 0x0A]"

definition indent :: "nat \<Rightarrow> string" where
  "indent n = replicate n (CHR '' '')"

definition digit_char :: "nat \<Rightarrow> char" where
  "digit_char d = char_of (48 + d)"

text \<open>A non-negative integer as a template literal prints it: in decimal.\<close>

fun string_of_nat :: "nat \<Rightarrow> string" where
  "string_of_nat n =
     (if n < 10 then [digit_char n]
      else string_of_nat (n div 10) @ [digit_char (n mod 10)])"

declare string_of_nat.simps [simp del]

text \<open>\<^verbatim>\<open>${x}\<close> for an optional \<open>x\<close>: \<^verbatim>\<open>undefined\<close> prints as the word.\<close>

definition template_opt :: "('a \<Rightarrow> string) \<Rightarrow> 'a option \<Rightarrow> string" where
  "template_opt show x = (case x of None \<Rightarrow> ''undefined'' | Some v \<Rightarrow> show v)"

subsection \<open>The client\<close>

record 'd Client =
  baseURL :: string
  userAgent :: string
  timeout :: int
  retryOverQueryLimit :: bool
  headers :: header_map
  maxRetries :: int
  additionalAxiosOpts :: "axios_request_config option"
  axiosInstance :: "'d axios_instance"
  axiosOptions :: axios_request_config
  proxy :: "proxy_setting option"

text \<open>Spreading \<^verbatim>\<open>...obj\<close> into an object literal: the properties of \<open>obj\<close> replace
  the ones written before it; spreading \<^verbatim>\<open>undefined\<close> adds nothing.\<close>

definition spread_headers :: "header_map option \<Rightarrow> header_map" where
  "spread_headers h = (case h of None \<Rightarrow> Map.empty | Some m \<Rightarrow> m)"

definition merged_headers :: "options \<Rightarrow> string \<Rightarrow> header_map option \<Rightarrow> header_map" where
  "merged_headers opts ua h =
     (defaultHeaders opts)(''User-Agent'' \<mapsto> HeaderString ua) ++ spread_headers h"

definition override :: "'a option \<Rightarrow> 'a option \<Rightarrow> 'a option" where
  "override base new = (case new of None \<Rightarrow> base | Some v \<Rightarrow> Some v)"

definition spread_config ::
  "axios_request_config \<Rightarrow> axios_request_config option \<Rightarrow> axios_request_config" where
  "spread_config base extra =
     (case extra of
        None \<Rightarrow> base
      | Some e \<Rightarrow>
          \<lparr>cfg_headers = override (cfg_headers base) (cfg_headers e),
           cfg_timeout = override (cfg_timeout base) (cfg_timeout e),
           cfg_proxy = override (cfg_proxy base) (cfg_proxy e),
           cfg_rest = cfg_rest base @ cfg_rest e\<rparr>)"

text \<open>The line \<^verbatim>\<open>onRetry\<close> writes to the console.\<close>

definition retry_log_line :: "nat \<Rightarrow> axios_error \<Rightarrow> string" where
  "retry_log_line number error =
     ''Request failed with status code ''
       @ template_opt string_of_nat (map_option res_status (err_response error))
       @ '': '' @ template_opt id (map_option res_statusText (err_response error))
       @ ''. Retry number '' @ string_of_nat number @ ''.''"

definition retry_options ::
  "'d axios_retry_lib \<Rightarrow> int \<Rightarrow> bool \<Rightarrow> 'd IAxiosRetryConfig" where
  "retry_options lib maxRetries' retryOverQueryLimit' =
     \<lparr>retries = maxRetries',
      retryCondition =
        (if retryOverQueryLimit'
         then Some (\<lambda>error. isNetworkOrIdempotentRequestError lib error
                      \<or> map_option res_status (err_response error) = Some 429)
         else None),
      retryDelay = exponentialDelay lib,
      onRetry = retry_log_line\<rparr>"

text \<open>The constructor. An argument left out (\<open>None\<close>) takes its default.\<close>

definition new_Client ::
  "options \<Rightarrow> 'd axios_retry_lib \<Rightarrow> string \<Rightarrow> string option \<Rightarrow> int option \<Rightarrow> bool option
     \<Rightarrow> header_map option \<Rightarrow> int option \<Rightarrow> axios_request_config option \<Rightarrow> 'd Client" where
  "new_Client opts lib baseURL' userAgent' timeout' retryOverQueryLimit' headers'
       maxRetries' additionalAxiosOpts' =
     (let ua = (case userAgent' of None \<Rightarrow> defaultUserAgent opts | Some s \<Rightarrow> s);
          tmo = (case timeout' of None \<Rightarrow> defaultTimeout opts | Some t \<Rightarrow> t);
          roql = (case retryOverQueryLimit' of None \<Rightarrow> False | Some b \<Rightarrow> b);
          mr = (case maxRetries' of None \<Rightarrow> defaultMaxRetries opts | Some n \<Rightarrow> n);
          hs = merged_headers opts ua headers';
          axopts = spread_config
                     \<lparr>cfg_headers = Some hs, cfg_timeout = Some tmo, cfg_proxy = None,
                      cfg_rest = []\<rparr>
                     additionalAxiosOpts';
          inst = axios_create axopts;
          prx = (case additionalAxiosOpts' of None \<Rightarrow> None | Some e \<Rightarrow> cfg_proxy e);
          retryOpts = retry_options lib mr roql
      in \<lparr>baseURL = baseURL', userAgent = ua, timeout = tmo, retryOverQueryLimit = roql,
          headers = hs, maxRetries = mr, additionalAxiosOpts = additionalAxiosOpts',
          axiosInstance = axiosRetry inst retryOpts, axiosOptions = axopts, proxy = prx\<rparr>)"

subsection \<open>The request method\<close>

record requestArgs =
  endpoint :: string
  getParams :: "js_value option"
  postParams :: "js_value option"
  auth :: "(string \<times> string) list option"
  dryRun :: "bool option"

datatype http_call =
    HttpPost string js_value
  | HttpGet string "js_value option"

text \<open>Everything outside the client that a call of \<^verbatim>\<open>request\<close> consults. \<open>URL_new\<close> is
  the \<^verbatim>\<open>URL\<close> constructor (\<open>None\<close>: it throws), \<open>adapter\<close> is how the network answers a
  call made through an instance, after the instance's retries. \<^verbatim>\<open>JSON.stringify\<close> is
  total on plain data; on a host object, given by its class, it may throw
  (\<open>JSON_stringify_host\<close> is \<open>None\<close> then), as it does on a structure with a cycle.\<close>

record 'd world =
  URL_new :: "string \<Rightarrow> url option"
  URL_toString :: "url \<Rightarrow> string"
  JSON_stringify :: "js_value \<Rightarrow> string"
  JSON_stringify_host :: "string \<Rightarrow> string option"
  JSON_stringify_error :: "axios_error \<Rightarrow> string"
  adapter :: "'d axios_instance \<Rightarrow> http_call \<Rightarrow> axios_error + axios_response"

definition JSON_stringify_any :: "'d world \<Rightarrow> js_any \<Rightarrow> string option" where
  "JSON_stringify_any w x =
     (case x of
        Plain v \<Rightarrow> Some (JSON_stringify w v)
      | HostObject c \<Rightarrow> JSON_stringify_host w c)"

text \<open>\<^verbatim>\<open>${JSON.stringify(x)}\<close> for an optional \<open>x\<close>: the text, or \<open>None\<close> when the
  serializer throws.\<close>

definition JSON_stringify_opt :: "'d world \<Rightarrow> js_any option \<Rightarrow> string option" where
  "JSON_stringify_opt w x =
     (case x of None \<Rightarrow> Some ''undefined'' | Some v \<Rightarrow> JSON_stringify_any w v)"

text \<open>The outcome of one call: what the returned promise settles with, the network calls
  made, and the client object afterwards.\<close>

record 'd run =
  settled :: "thrown + js_value"
  calls :: "http_call list"
  this_after :: "'d Client"

definition promise_then :: "'e + 'a \<Rightarrow> ('a \<Rightarrow> 'b) \<Rightarrow> 'e + 'b" where
  "promise_then p f = (case p of Inl e \<Rightarrow> Inl e | Inr v \<Rightarrow> Inr (f v))"

text \<open>\<^verbatim>\<open>.catch\<close> with a handler that always throws: the handler computes the new reason.\<close>

definition promise_catch_throw :: "'e + 'a \<Rightarrow> ('e \<Rightarrow> 'f) \<Rightarrow> 'f + 'a" where
  "promise_catch_throw p h = (case p of Inl e \<Rightarrow> Inl (h e) | Inr v \<Rightarrow> Inr v)"

text \<open>The loop over \<^verbatim>\<open>Object.entries(auth)\<close>.\<close>

fun append_entries :: "url \<Rightarrow> (string \<times> string) list \<Rightarrow> url" where
  "append_entries u [] = u"
| "append_entries u ((k, v) # kvs) = append_entries (searchParams_append u k v) kvs"

definition post_catch :: "'d world \<Rightarrow> axios_error \<Rightarrow> thrown" where
  "post_catch w error =
     RoutingJSAPIError
       (''Request failed with status ''
          @ template_opt string_of_nat (map_option res_status (err_response error))
          @ '': '' @ JSON_stringify_error w error)"

text \<open>The handler of a rejected GET. Building the message of the second branch calls the
  serializer; when that throws, its error is what the handler throws.\<close>

definition get_catch :: "'d world \<Rightarrow> axios_error \<Rightarrow> thrown" where
  "get_catch w error =
     (case err_response error of
        Some response \<Rightarrow>
          RoutingJSAPIError
            (''Request failed with status '' @ string_of_nat (res_status response)
               @ '': '' @ err_message error)
      | None \<Rightarrow>
          (if truthy_opt (err_request error)
           then (case JSON_stringify_opt w (err_request error) of
                   Some text \<Rightarrow>
                     RoutingJSAPIError (''Request failed with request '' @ text)
                 | None \<Rightarrow> TypeError_Stringify)
           else RoutingJSClientError
                  (''Request failed with error '' @ err_name error @ ''.'' @ newline
                     @ indent 29 @ ''Message: '' @ err_message error @ '' '')))"

definition request :: "'d world \<Rightarrow> 'd Client \<Rightarrow> requestArgs \<Rightarrow> 'd run" where
  "request w this requestArgs' =
     (case URL_new w (baseURL this @ endpoint requestArgs') of
        None \<Rightarrow>
          \<lparr>settled = Inl (TypeError_InvalidURL (baseURL this @ endpoint requestArgs')),
           calls = [], this_after = this\<rparr>
      | Some urlObj \<Rightarrow>
          (case postParams requestArgs' of
             Some postParams' \<Rightarrow>
               (let urlObj' = (case auth requestArgs' of
                                 Some auth' \<Rightarrow> append_entries urlObj auth'
                               | None \<Rightarrow> urlObj)
                in if dryRun requestArgs' = Some True
                   then \<lparr>settled = Inr (JString
                            (newline @ indent 16 @ ''URL: '' @ URL_toString w urlObj'
                               @ newline @ indent 16 @ ''Method: POST''
                               @ newline @ indent 16 @ ''Parameters: ''
                               @ template_opt (JSON_stringify w) (Some postParams')
                               @ newline @ indent 12)),
                         calls = [], this_after = this\<rparr>
                   else \<lparr>settled =
                           promise_catch_throw
                             (promise_then
                                (adapter w (axiosInstance this)
                                   (HttpPost (URL_toString w urlObj') postParams'))
                                res_data)
                             (post_catch w),
                         calls = [HttpPost (URL_toString w urlObj') postParams'],
                         this_after = this\<rparr>)
           | None \<Rightarrow>
               (if dryRun requestArgs' = Some True
                then \<lparr>settled = Inr (JString
                         (newline @ indent 16 @ ''URL: '' @ URL_toString w urlObj
                            @ newline @ indent 16 @ ''Method: GET''
                            @ newline @ indent 16 @ ''Parameters: ''
                            @ template_opt (JSON_stringify w) (getParams requestArgs')
                            @ newline @ indent 12)),
                      calls = [], this_after = this\<rparr>
                else \<lparr>settled =
                        promise_then
                          (promise_catch_throw
                             (adapter w (axiosInstance this)
                                (HttpGet (URL_toString w urlObj) (getParams requestArgs')))
                             (get_catch w))
                          res_data,
                      calls = [HttpGet (URL_toString w urlObj) (getParams requestArgs')],
                      this_after = this\<rparr>)))"

subsection \<open>The specification's vocabulary\<close>

text \<open>The definitions of this subsection are not taken from the source: they name what the
  specification talks about, so that the theorems can compare the code with it.\<close>

datatype http_method = GET | POST

fun call_method :: "http_call \<Rightarrow> http_method" where
  "call_method (HttpPost u b) = POST"
| "call_method (HttpGet u p) = GET"

fun call_url :: "http_call \<Rightarrow> string" where
  "call_url (HttpPost u b) = u"
| "call_url (HttpGet u p) = u"

text \<open>The text a dry run resolves with, for a URL, a method name and serialized
  parameters.\<close>

definition requestInfo :: "string \<Rightarrow> string \<Rightarrow> string \<Rightarrow> string" where
  "requestInfo u m ps =
     newline @ indent 16 @ ''URL: '' @ u
       @ newline @ indent 16 @ ''Method: '' @ m
       @ newline @ indent 16 @ ''Parameters: '' @ ps
       @ newline @ indent 12"

text \<open>The URL object with the auth pairs appended, when there are any.\<close>

definition url_with_auth :: "url \<Rightarrow> (string \<times> string) list option \<Rightarrow> url" where
  "url_with_auth u au = (case au of None \<Rightarrow> u | Some kvs \<Rightarrow> append_entries u kvs)"

text \<open>The serialized parameters of a call: the POST parameters when they are given, the
  GET parameters otherwise (\<^verbatim>\<open>JSON.stringify(undefined)\<close> is \<^verbatim>\<open>undefined\<close>, which a
  template prints as the word).\<close>

definition params_text :: "'d world \<Rightarrow> requestArgs \<Rightarrow> string" where
  "params_text w a =
     (case postParams a of
        Some pp \<Rightarrow> JSON_stringify w pp
      | None \<Rightarrow> template_opt (JSON_stringify w) (getParams a))"

subsection \<open>A concrete platform, for instances of the theorems\<close>

text \<open>A toy platform: a URL must start with \<^verbatim>\<open>http\<close>, a URL prints as its components
  followed by its pairs, and the serializer distinguishes only the shape of a value. It
  throws at a \<^verbatim>\<open>ClientRequest\<close>, whose socket refers back to it, and prints any other host
  object as an empty object. The retry library takes the value it is given for the
  predicate as it is, \<^verbatim>\<open>undefined\<close> included, which is what merging the caller's options
  over the defaults with an object spread does.\<close>

fun example_query :: "(string \<times> string) list \<Rightarrow> string" where
  "example_query [] = []"
| "example_query ((k, v) # kvs) =
     ''?'' @ k @ ''='' @ v @ concat (map (\<lambda>(k', v'). ''&'' @ k' @ ''='' @ v') kvs)"

definition example_stringify :: "js_value \<Rightarrow> string" where
  "example_stringify v =
     (case v of
        JNull \<Rightarrow> ''null''
      | JBool b \<Rightarrow> (if b then ''true'' else ''false'')
      | JNumber n \<Rightarrow> ''0''
      | JString s \<Rightarrow> s
      | JArray xs \<Rightarrow> (if xs = [] then ''[]'' else ''[..]'')
      | JObject kvs \<Rightarrow> (if kvs = [] then ''{}'' else ''{..}''))"

definition example_world :: "(axios_error + axios_response) \<Rightarrow> unit world" where
  "example_world answer =
     \<lparr>URL_new = (\<lambda>s. if take 4 s = ''http''
                      then Some \<lparr>url_components = s, searchParams = []\<rparr> else None),
      URL_toString = (\<lambda>u. url_components u @ example_query (searchParams u)),
      JSON_stringify = example_stringify,
      JSON_stringify_host = (\<lambda>c. if c = ''ClientRequest'' then None else Some ''{}''),
      JSON_stringify_error = (\<lambda>e. ''{}''),
      adapter = (\<lambda>inst c. answer)\<rparr>"

definition example_options :: options where
  "example_options =
     \<lparr>defaultUserAgent = ''routing-js'', defaultTimeout = 30000, defaultMaxRetries = 5,
      defaultHeaders = [''Content-Type'' \<mapsto> HeaderString ''application/json'']\<rparr>"

definition example_lib :: "unit axios_retry_lib" where
  "example_lib =
     \<lparr>isNetworkOrIdempotentRequestError = (\<lambda>e. err_response e = None),
      exponentialDelay = (),
      merged_retryCondition = (\<lambda>given. given)\<rparr>"

definition example_client :: "string \<Rightarrow> unit Client" where
  "example_client base =
     new_Client example_options example_lib base None None None None None None"

definition example_ok :: "axios_error + axios_response" where
  "example_ok = Inr \<lparr>res_status = 200, res_statusText = ''OK'', res_data = JObject []\<rparr>"

definition example_args :: "js_value option \<Rightarrow> js_value option
    \<Rightarrow> (string \<times> string) list option \<Rightarrow> bool option \<Rightarrow> requestArgs" where
  "example_args gp pp au dr =
     \<lparr>endpoint = ''/route'', getParams = gp, postParams = pp, auth = au, dryRun = dr\<rparr>"

text \<open>Failures of the transport: a request that got no reply, on Node and in a browser,
  an error raised before anything was sent, and a reply with status 429.\<close>

definition example_no_reply_browser :: "axios_error" where
  "example_no_reply_browser =
     \<lparr>err_name = ''AxiosError'', err_message = ''Network Error'', err_response = None,
      err_request = Some (HostObject ''XMLHttpRequest'')\<rparr>"


definition example_no_reply :: "axios_error" where
  "example_no_reply =
     \<lparr>err_name = ''AxiosError'', err_message = ''Network Error'', err_response = None,
      err_request = Some (HostObject ''ClientRequest'')\<rparr>"

definition example_setup_failure :: "axios_error" where
  "example_setup_failure =
     \<lparr>err_name = ''TypeError'', err_message = ''Invalid header'', err_response = None,
      err_request = None\<rparr>"

definition example_rate_limited :: "axios_error" where
  "example_rate_limited =
     \<lparr>err_name = ''AxiosError'', err_message = ''Request failed with status code 429'',
      err_response = Some \<lparr>res_status = 429, res_statusText = ''Too Many Requests'',
                            res_data = JNull\<rparr>,
      err_request = Some (HostObject ''ClientRequest'')\<rparr>"

text \<open>Caller headers, and a failure that carries a response with a given status.\<close>

definition example_headers :: header_map where
  "example_headers =
     [''User-Agent'' \<mapsto> HeaderString ''my-app/1.0'', ''X-Request-Id'' \<mapsto> HeaderNumber 7]"


section \<open>Properties\<close>

subsection \<open>Helper facts\<close>

lemma searchParams_append_entries:
  "searchParams (append_entries u kvs) = searchParams u @ kvs"
  by (induction u kvs rule: append_entries.induct) (simp_all add: searchParams_append_def)

lemma url_components_append_entries:
  "url_components (append_entries u kvs) = url_components u"
  by (induction u kvs rule: append_entries.induct) (simp_all add: searchParams_append_def)

lemma this_after_request: "this_after (request w this a) = this"
  by (simp add: request_def Let_def split: option.split)

lemma requestInfo_parts:
  "sublist u (requestInfo u m ps) \<and> sublist m (requestInfo u m ps)
   \<and> sublist ps (requestInfo u m ps)"
proof -
  have "sublist u ((newline @ indent 16 @ ''URL: '') @ u @
      (newline @ indent 16 @ ''Method: '' @ m @ newline @ indent 16 @ ''Parameters: '' @ ps
        @ newline @ indent 12))"
    by (rule sublist_appendI)
  moreover have "sublist m ((newline @ indent 16 @ ''URL: '' @ u @ newline @ indent 16
      @ ''Method: '') @ m @ (newline @ indent 16 @ ''Parameters: '' @ ps @ newline @ indent 12))"
    by (rule sublist_appendI)
  moreover have "sublist ps ((newline @ indent 16 @ ''URL: '' @ u @ newline @ indent 16
      @ ''Method: '' @ m @ newline @ indent 16 @ ''Parameters: '') @ ps @ (newline @ indent 12))"
    by (rule sublist_appendI)
  ultimately show ?thesis
    by (simp add: requestInfo_def)
qed

text \<open>The five ways through \<^verbatim>\<open>request\<close>, one lemma each.\<close>

lemma request_invalid_url:
  "URL_new w (baseURL this @ endpoint a) = None \<Longrightarrow>
   request w this a =
     \<lparr>settled = Inl (TypeError_InvalidURL (baseURL this @ endpoint a)), calls = [],
      this_after = this\<rparr>"
  by (simp add: request_def)

lemma request_dry_post:
  "URL_new w (baseURL this @ endpoint a) = Some u \<Longrightarrow> postParams a = Some pp \<Longrightarrow>
   dryRun a = Some True \<Longrightarrow>
   request w this a =
     \<lparr>settled = Inr (JString (requestInfo (URL_toString w (url_with_auth u (auth a))) ''POST''
                   (JSON_stringify w pp))),
      calls = [], this_after = this\<rparr>"
  by (simp add: request_def requestInfo_def url_with_auth_def template_opt_def Let_def
        split: option.split)

lemma request_dry_get:
  "URL_new w (baseURL this @ endpoint a) = Some u \<Longrightarrow> postParams a = None \<Longrightarrow>
   dryRun a = Some True \<Longrightarrow>
   request w this a =
     \<lparr>settled = Inr (JString (requestInfo (URL_toString w u) ''GET''
                   (template_opt (JSON_stringify w) (getParams a)))),
      calls = [], this_after = this\<rparr>"
  by (simp add: request_def requestInfo_def)

lemma request_real_post:
  "URL_new w (baseURL this @ endpoint a) = Some u \<Longrightarrow> postParams a = Some pp \<Longrightarrow>
   dryRun a \<noteq> Some True \<Longrightarrow>
   request w this a =
     \<lparr>settled =
        promise_catch_throw
          (promise_then
             (adapter w (axiosInstance this)
                (HttpPost (URL_toString w (url_with_auth u (auth a))) pp))
             res_data)
          (post_catch w),
      calls = [HttpPost (URL_toString w (url_with_auth u (auth a))) pp],
      this_after = this\<rparr>"
  by (simp add: request_def url_with_auth_def Let_def split: option.split)

lemma request_real_get:
  "URL_new w (baseURL this @ endpoint a) = Some u \<Longrightarrow> postParams a = None \<Longrightarrow>
   dryRun a \<noteq> Some True \<Longrightarrow>
   request w this a =
     \<lparr>settled =
        promise_then
          (promise_catch_throw
             (adapter w (axiosInstance this) (HttpGet (URL_toString w u) (getParams a)))
             (get_catch w))
          res_data,
      calls = [HttpGet (URL_toString w u) (getParams a)],
      this_after = this\<rparr>"
  by (simp add: request_def)

text \<open>The concrete platform, evaluated.\<close>

lemma example_baseURL: "baseURL (example_client b) = b"
  by (simp add: example_client_def new_Client_def Let_def)

lemma example_URL_new:
  "URL_new (example_world x) s =
     (if take 4 s = ''http'' then Some \<lparr>url_components = s, searchParams = []\<rparr> else None)"
  by (simp add: example_world_def)

lemma example_URL_toString:
  "URL_toString (example_world x) u = url_components u @ example_query (searchParams u)"
  by (simp add: example_world_def)

lemma example_JSON_stringify:
  "JSON_stringify (example_world x) = example_stringify"
  by (simp add: example_world_def)

lemma example_adapter: "adapter (example_world x) i c = x"
  by (simp add: example_world_def)

lemma example_parse_ok:
  "URL_new (example_world x)
     (baseURL (example_client ''http://localhost:8002'') @ endpoint (example_args gp pp au dr))
   = Some \<lparr>url_components = ''http://localhost:8002/route'', searchParams = []\<rparr>"
  by (simp add: example_URL_new example_baseURL example_args_def)

lemma example_args_sel:
  "endpoint (example_args gp pp au dr) = ''/route''"
  "getParams (example_args gp pp au dr) = gp"
  "postParams (example_args gp pp au dr) = pp"
  "auth (example_args gp pp au dr) = au"
  "dryRun (example_args gp pp au dr) = dr"
  by (simp_all add: example_args_def)

lemma example_errors:
  "err_response example_rate_limited
     = Some \<lparr>res_status = 429, res_statusText = ''Too Many Requests'', res_data = JNull\<rparr>"
  "err_message example_rate_limited = ''Request failed with status code 429''"
  "err_response example_no_reply = None"
  "err_request example_no_reply = Some (HostObject ''ClientRequest'')"
  "err_response example_no_reply_browser = None"
  "err_request example_no_reply_browser = Some (HostObject ''XMLHttpRequest'')"
  "err_response example_setup_failure = None"
  "err_request example_setup_failure = None"
  "err_name example_setup_failure = ''TypeError''"
  "err_message example_setup_failure = ''Invalid header''"
  by (simp_all add: example_rate_limited_def example_no_reply_def example_setup_failure_def
        example_no_reply_browser_def)

lemma example_JSON_stringify_host:
  "JSON_stringify_host (example_world x) c = (if c = ''ClientRequest'' then None else Some ''{}'')"
  by (simp add: example_world_def)

text \<open>The failure handlers.\<close>

lemma sublist_mid: "sublist x (p @ x @ s)"
  by (rule sublist_appendI)

lemma get_catch_response:
  "err_response e = Some r \<Longrightarrow>
   get_catch w e = RoutingJSAPIError
     (''Request failed with status '' @ string_of_nat (res_status r) @ '': '' @ err_message e)"
  by (simp add: get_catch_def)

lemma get_catch_request:
  "err_response e = None \<Longrightarrow> truthy_opt (err_request e) \<Longrightarrow>
   JSON_stringify_opt w (err_request e) = Some t \<Longrightarrow>
   get_catch w e = RoutingJSAPIError (''Request failed with request '' @ t)"
  by (simp add: get_catch_def)

lemma get_catch_request_throws:
  "err_response e = None \<Longrightarrow> truthy_opt (err_request e) \<Longrightarrow>
   JSON_stringify_opt w (err_request e) = None \<Longrightarrow>
   get_catch w e = TypeError_Stringify"
  by (simp add: get_catch_def)

lemma get_catch_setup:
  "err_response e = None \<Longrightarrow> \<not> truthy_opt (err_request e) \<Longrightarrow>
   get_catch w e = RoutingJSClientError
     (''Request failed with error '' @ err_name e @ ''.'' @ newline @ indent 29
        @ ''Message: '' @ err_message e @ '' '')"
  by (simp add: get_catch_def)

lemma request_get_rejected:
  assumes "URL_new w (baseURL this @ endpoint a) = Some u"
    and "postParams a = None"
    and "dryRun a \<noteq> Some True"
    and "adapter w (axiosInstance this) (HttpGet (URL_toString w u) (getParams a)) = Inl e"
  shows "settled (request w this a) = Inl (get_catch w e)"
  using assms by (simp add: request_real_get promise_then_def promise_catch_throw_def)

lemma request_post_rejected:
  assumes "URL_new w (baseURL this @ endpoint a) = Some u"
    and "postParams a = Some pp"
    and "dryRun a \<noteq> Some True"
    and "adapter w (axiosInstance this)
           (HttpPost (URL_toString w (url_with_auth u (auth a))) pp) = Inl e"
  shows "settled (request w this a) = Inl (post_catch w e)"
  using assms by (simp add: request_real_post promise_then_def promise_catch_throw_def)

text \<open>What a rejected GET becomes, case by case: the handler's three branches, and the
  serializer's error where the second branch cannot build its message.\<close>

lemma get_failure_cases:
  assumes "URL_new w (baseURL this @ endpoint a) = Some u"
    and "postParams a = None"
    and "dryRun a \<noteq> Some True"
    and "adapter w (axiosInstance this) (HttpGet (URL_toString w u) (getParams a)) = Inl e"
  shows "(\<forall>r. err_response e = Some r \<longrightarrow>
            settled (request w this a) = Inl (RoutingJSAPIError
              (''Request failed with status '' @ string_of_nat (res_status r) @ '': ''
                 @ err_message e)))
    \<and> (\<forall>t. err_response e = None \<and> truthy_opt (err_request e)
            \<and> JSON_stringify_opt w (err_request e) = Some t \<longrightarrow>
            settled (request w this a) = Inl (RoutingJSAPIError
              (''Request failed with request '' @ t)))
    \<and> (err_response e = None \<and> truthy_opt (err_request e)
            \<and> JSON_stringify_opt w (err_request e) = None \<longrightarrow>
            settled (request w this a) = Inl TypeError_Stringify)
    \<and> (err_response e = None \<and> \<not> truthy_opt (err_request e) \<longrightarrow>
            settled (request w this a) = Inl (RoutingJSClientError
              (''Request failed with error '' @ err_name e @ ''.'' @ newline @ indent 29
                 @ ''Message: '' @ err_message e @ '' '')))"
proof -
  have s: "settled (request w this a) = Inl (get_catch w e)"
    using assms by (rule request_get_rejected)
  show ?thesis
    unfolding s
    by (simp add: get_catch_response get_catch_request get_catch_request_throws
          get_catch_setup)
qed

lemma post_catch_parts:
  "\<exists>m. post_catch w e = RoutingJSAPIError m
     \<and> m = ''Request failed with status ''
           @ template_opt string_of_nat (map_option res_status (err_response e))
           @ '': '' @ JSON_stringify_error w e
     \<and> sublist (template_opt string_of_nat (map_option res_status (err_response e))) m
     \<and> sublist (JSON_stringify_error w e) m"
proof (intro exI conjI)
  show "post_catch w e = RoutingJSAPIError
     (''Request failed with status ''
        @ template_opt string_of_nat (map_option res_status (err_response e))
        @ '': '' @ JSON_stringify_error w e)"
    by (simp only: post_catch_def)
  show "sublist (template_opt string_of_nat (map_option res_status (err_response e)))
     (''Request failed with status ''
        @ template_opt string_of_nat (map_option res_status (err_response e))
        @ '': '' @ JSON_stringify_error w e)"
    by (rule sublist_mid)
  have "sublist (JSON_stringify_error w e)
     ((''Request failed with status ''
        @ template_opt string_of_nat (map_option res_status (err_response e))
        @ '': '') @ JSON_stringify_error w e)"
    by (rule sublist_append_leftI)
  then show "sublist (JSON_stringify_error w e)
     (''Request failed with status ''
        @ template_opt string_of_nat (map_option res_status (err_response e))
        @ '': '' @ JSON_stringify_error w e)"
    by (simp only: append_assoc)
qed (rule refl)

lemma post_path_never_client_error:
  assumes "postParams a = Some pp"
  shows "settled (request w this a) \<noteq> Inl (RoutingJSClientError m)"
proof (cases "URL_new w (baseURL this @ endpoint a)")
  case None
  then show ?thesis by (simp add: request_invalid_url)
next
  case (Some u)
  show ?thesis
  proof (cases "dryRun a = Some True")
    case True
    with Some assms show ?thesis by (simp add: request_dry_post)
  next
    case False
    with Some assms show ?thesis
      by (simp add: request_real_post promise_then_def promise_catch_throw_def post_catch_def
            split: sum.split)
  qed
qed

text \<open>What the constructor stores.\<close>

lemma headers_new_Client:
  "headers (new_Client opts lib b ua t r h mr ax)
     = merged_headers opts (case ua of None \<Rightarrow> defaultUserAgent opts | Some s \<Rightarrow> s) h"
  by (simp add: new_Client_def Let_def)



subsection \<open>Frame\<close>

text \<open>
  C9. A call of \<^verbatim>\<open>request\<close> assigns to no field of the client: the client object after
  the call is the client object before it, whatever the arguments and however the call
  settles (resolved, rejected, dry run, invalid URL). Hence a second call on the same
  client behaves as if the first had not happened.
\<close>

theorem request_leaves_client_unchanged:
  "this_after (request w this a) = this
   \<and> request w (this_after (request w this a)) b = request w this b"
  by (simp add: this_after_request)

subsection \<open>Invalid URLs\<close>

text \<open>
  C10. When base URL and endpoint, concatenated, are not a valid URL, the \<^verbatim>\<open>URL\<close>
  constructor throws before the method looks at the POST parameters or the dry-run flag:
  the call rejects with that raw error, which is neither of the client's two error
  classes, and no network call is made. The arguments are arbitrary, so this holds with
  the dry-run flag set as well.
\<close>

theorem invalid_url_rejects_with_raw_error:
  assumes "URL_new w (baseURL this @ endpoint a) = None"
  shows "settled (request w this a) = Inl (TypeError_InvalidURL (baseURL this @ endpoint a))
    \<and> calls (request w this a) = []
    \<and> (\<forall>m. settled (request w this a) \<noteq> Inl (RoutingJSAPIError m))
    \<and> (\<forall>m. settled (request w this a) \<noteq> Inl (RoutingJSClientError m))"
  using assms by (simp add: request_invalid_url)

theorem invalid_url_rejects_with_raw_error_witness:
  "URL_new (example_world example_ok)
      (baseURL (example_client ''api.example.com'')
         @ endpoint (example_args None (Some (JObject [])) None (Some True))) = None
   \<and> dryRun (example_args None (Some (JObject [])) None (Some True)) = Some True
   \<and> settled (request (example_world example_ok) (example_client ''api.example.com'')
         (example_args None (Some (JObject [])) None (Some True)))
       = Inl (TypeError_InvalidURL ''api.example.com/route'')
   \<and> calls (request (example_world example_ok) (example_client ''api.example.com'')
         (example_args None (Some (JObject [])) None (Some True))) = []"
proof -
  have h: "URL_new (example_world example_ok)
      (baseURL (example_client ''api.example.com'')
         @ endpoint (example_args None (Some (JObject [])) None (Some True))) = None"
    by (simp add: example_URL_new example_baseURL example_args_def)
  from invalid_url_rejects_with_raw_error [OF h] h show ?thesis
    by (simp add: example_baseURL example_args_def)
qed

subsection \<open>Dry run\<close>

text \<open>
  C3. With the dry-run flag \<^verbatim>\<open>true\<close> no network call is made and the call never rejects
  with one of the client's transport errors. Whenever the URL parses, the call resolves
  with a string, the text of \<open>requestInfo\<close>, which contains the final URL, the method
  name of the route taken (\<^verbatim>\<open>POST\<close> when POST parameters are given, \<^verbatim>\<open>GET\<close> otherwise)
  and the serialization of the parameters of that route.
\<close>

theorem dry_run_makes_no_call:
  assumes "dryRun a = Some True"
  shows "calls (request w this a) = []
    \<and> (\<forall>m. settled (request w this a) \<noteq> Inl (RoutingJSAPIError m))
    \<and> (\<forall>m. settled (request w this a) \<noteq> Inl (RoutingJSClientError m))
    \<and> (\<forall>u. URL_new w (baseURL this @ endpoint a) = Some u \<longrightarrow>
          (\<exists>s url. settled (request w this a) = Inr (JString s)
             \<and> url = URL_toString w (if postParams a = None then u else url_with_auth u (auth a))
             \<and> s = requestInfo url (if postParams a = None then ''GET'' else ''POST'')
                   (params_text w a)
             \<and> sublist url s
             \<and> sublist (if postParams a = None then ''GET'' else ''POST'') s
             \<and> sublist (params_text w a) s))"
proof (cases "URL_new w (baseURL this @ endpoint a)")
  case None
  then show ?thesis by (simp add: request_invalid_url)
next
  case (Some u)
  show ?thesis
  proof (cases "postParams a")
    case None
    with Some assms show ?thesis
      by (simp add: request_dry_get params_text_def requestInfo_parts)
  next
    case (Some pp)
    with \<open>URL_new w (baseURL this @ endpoint a) = Some u\<close> assms show ?thesis
      by (simp add: request_dry_post params_text_def requestInfo_parts)
  qed
qed

theorem dry_run_makes_no_call_witness:
  "dryRun (example_args (Some (JObject [])) None None (Some True)) = Some True
   \<and> calls (request (example_world example_ok) (example_client ''http://localhost:8002'')
        (example_args (Some (JObject [])) None None (Some True))) = []
   \<and> settled (request (example_world example_ok) (example_client ''http://localhost:8002'')
        (example_args (Some (JObject [])) None None (Some True)))
      = Inr (JString (requestInfo ''http://localhost:8002/route'' ''GET'' ''{}''))
   \<and> sublist ''http://localhost:8002/route''
        (requestInfo ''http://localhost:8002/route'' ''GET'' ''{}'')"
proof -
  have d: "dryRun (example_args (Some (JObject [])) None None (Some True)) = Some True"
    by (simp add: example_args_def)
  have g: "postParams (example_args (Some (JObject [])) None None (Some True)) = None"
    by (simp add: example_args_def)
  have t: "params_text (example_world example_ok)
             (example_args (Some (JObject [])) None None (Some True)) = ''{}''"
    by (simp add: params_text_def example_args_def example_JSON_stringify template_opt_def
          example_stringify_def)
  from dry_run_makes_no_call [OF d, of "example_world example_ok"
      "example_client ''http://localhost:8002''"] d
  show ?thesis
    by (simp add: example_parse_ok g t example_URL_toString)
qed

subsection \<open>Routing\<close>

text \<open>
  C2. A call whose URL parses is routed as POST if and only if the POST parameters are
  not \<^verbatim>\<open>undefined\<close>, and as GET if and only if they are: in a real call the one network
  call made has that method, in a dry run the text names it. The GET parameters play no
  part in the decision. The instance below shows an empty object as POST parameters
  going out as POST, and a call with neither kind of parameters going out as GET.
\<close>

theorem routing_by_postParams:
  assumes "URL_new w (baseURL this @ endpoint a) = Some u"
  shows "(dryRun a \<noteq> Some True \<longrightarrow>
            (map call_method (calls (request w this a)) = [POST] \<longleftrightarrow> postParams a \<noteq> None)
          \<and> (map call_method (calls (request w this a)) = [GET] \<longleftrightarrow> postParams a = None))
    \<and> (dryRun a = Some True \<longrightarrow>
          calls (request w this a) = []
          \<and> settled (request w this a) =
               Inr (JString
                 (requestInfo
                    (URL_toString w (if postParams a = None then u else url_with_auth u (auth a)))
                    (if postParams a = None then ''GET'' else ''POST'')
                    (params_text w a))))"
proof (cases "postParams a")
  case None
  with assms show ?thesis
    by (cases "dryRun a = Some True")
       (simp_all add: request_dry_get request_real_get params_text_def)
next
  case (Some pp)
  with assms show ?thesis
    by (cases "dryRun a = Some True")
       (simp_all add: request_dry_post request_real_post params_text_def)
qed

theorem routing_by_postParams_witness:
  "URL_new (example_world example_ok)
     (baseURL (example_client ''http://localhost:8002'')
        @ endpoint (example_args None (Some (JObject [])) None None))
   = Some \<lparr>url_components = ''http://localhost:8002/route'', searchParams = []\<rparr>
   \<and> postParams (example_args None (Some (JObject [])) None None) = Some (JObject [])
   \<and> map call_method (calls (request (example_world example_ok)
        (example_client ''http://localhost:8002'')
        (example_args None (Some (JObject [])) None None))) = [POST]
   \<and> getParams (example_args None None None None) = None
   \<and> postParams (example_args None None None None) = None
   \<and> map call_method (calls (request (example_world example_ok)
        (example_client ''http://localhost:8002'')
        (example_args None None None None))) = [GET]"
proof -
  have p1: "URL_new (example_world example_ok)
     (baseURL (example_client ''http://localhost:8002'')
        @ endpoint (example_args None (Some (JObject [])) None None))
   = Some \<lparr>url_components = ''http://localhost:8002/route'', searchParams = []\<rparr>"
    by (rule example_parse_ok)
  have p2: "URL_new (example_world example_ok)
     (baseURL (example_client ''http://localhost:8002'')
        @ endpoint (example_args None None None None))
   = Some \<lparr>url_components = ''http://localhost:8002/route'', searchParams = []\<rparr>"
    by (rule example_parse_ok)
  from routing_by_postParams [OF p1] routing_by_postParams [OF p2] p1
  show ?thesis
    by (simp add: example_args_sel)
qed

subsection \<open>Auth parameters on the POST path\<close>

text \<open>
  C4. With POST parameters and auth parameters both given, the URL that is used (sent
  to, or printed by a dry run) is the text of a URL object whose search parameters are
  those of the parsed URL followed by every auth pair, all else unchanged; and the body
  sent (or serialized in the dry-run text) is the POST parameters as given, so the auth
  pairs are not in it.
\<close>

theorem auth_in_url_not_in_body:
  assumes "URL_new w (baseURL this @ endpoint a) = Some u"
    and "postParams a = Some pp"
    and "auth a = Some au"
  shows "\<exists>u'. searchParams u' = searchParams u @ au
           \<and> url_components u' = url_components u
           \<and> set au \<subseteq> set (searchParams u')
           \<and> (if dryRun a = Some True
               then calls (request w this a) = []
                 \<and> settled (request w this a) =
                     Inr (JString (requestInfo (URL_toString w u') ''POST'' (JSON_stringify w pp)))
               else calls (request w this a) = [HttpPost (URL_toString w u') pp])"
proof (intro exI [of _ "append_entries u au"] conjI)
  show "searchParams (append_entries u au) = searchParams u @ au"
    by (rule searchParams_append_entries)
  show "url_components (append_entries u au) = url_components u"
    by (rule url_components_append_entries)
  show "set au \<subseteq> set (searchParams (append_entries u au))"
    by (simp add: searchParams_append_entries)
  show "if dryRun a = Some True
        then calls (request w this a) = []
          \<and> settled (request w this a) =
              Inr (JString (requestInfo (URL_toString w (append_entries u au)) ''POST''
                 (JSON_stringify w pp)))
        else calls (request w this a) = [HttpPost (URL_toString w (append_entries u au)) pp]"
    using assms
    by (cases "dryRun a = Some True")
       (simp_all add: request_dry_post request_real_post url_with_auth_def)
qed

theorem auth_in_url_not_in_body_witness:
  "URL_new (example_world example_ok)
     (baseURL (example_client ''http://localhost:8002'')
        @ endpoint (example_args None (Some (JObject [(''locations'', JArray [])]))
             (Some [(''access_token'', ''abc'')]) None))
   = Some \<lparr>url_components = ''http://localhost:8002/route'', searchParams = []\<rparr>
   \<and> postParams (example_args None (Some (JObject [(''locations'', JArray [])]))
             (Some [(''access_token'', ''abc'')]) None)
       = Some (JObject [(''locations'', JArray [])])
   \<and> auth (example_args None (Some (JObject [(''locations'', JArray [])]))
             (Some [(''access_token'', ''abc'')]) None)
       = Some [(''access_token'', ''abc'')]
   \<and> calls (request (example_world example_ok) (example_client ''http://localhost:8002'')
        (example_args None (Some (JObject [(''locations'', JArray [])]))
             (Some [(''access_token'', ''abc'')]) None))
       = [HttpPost ''http://localhost:8002/route?access_token=abc''
            (JObject [(''locations'', JArray [])])]"
proof -
  have p: "URL_new (example_world example_ok)
     (baseURL (example_client ''http://localhost:8002'')
        @ endpoint (example_args None (Some (JObject [(''locations'', JArray [])]))
             (Some [(''access_token'', ''abc'')]) None))
   = Some \<lparr>url_components = ''http://localhost:8002/route'', searchParams = []\<rparr>"
    by (rule example_parse_ok)
  have q: "postParams (example_args None (Some (JObject [(''locations'', JArray [])]))
             (Some [(''access_token'', ''abc'')]) None)
       = Some (JObject [(''locations'', JArray [])])"
    by (simp add: example_args_sel)
  have r: "auth (example_args None (Some (JObject [(''locations'', JArray [])]))
             (Some [(''access_token'', ''abc'')]) None)
       = Some [(''access_token'', ''abc'')]"
    by (simp add: example_args_sel)
  from auth_in_url_not_in_body [OF p q r] obtain u' where
    u': "searchParams u' = [(''access_token'', ''abc'')]"
        "url_components u' = ''http://localhost:8002/route''"
    and c: "calls (request (example_world example_ok) (example_client ''http://localhost:8002'')
        (example_args None (Some (JObject [(''locations'', JArray [])]))
             (Some [(''access_token'', ''abc'')]) None))
       = [HttpPost (URL_toString (example_world example_ok) u')
            (JObject [(''locations'', JArray [])])]"
    by (auto simp: example_args_sel)
  from u' have "URL_toString (example_world example_ok) u'
      = ''http://localhost:8002/route?access_token=abc''"
    by (simp add: example_URL_toString)
  with c p q r show ?thesis by simp
qed

subsection \<open>Failures\<close>

text \<open>
  C5 asks that a GET failure without a response but with an outgoing request object be
  raised as an API error that includes the serialized request. The handler's second
  branch is written to do so, and serializes the request object itself. On Node that
  object is the live \<^verbatim>\<open>ClientRequest\<close>, which the serializer cannot print: it throws
  while the message is being built, and the call rejects with the serializer's error
  instead of an API error. The input below is a GET that got no reply on Node; next to
  it, the same failure in a browser, where the request object prints and the API error
  is raised.
\<close>

theorem get_failure_request_not_serializable:
  "postParams (example_args None None None None) = None
   \<and> dryRun (example_args None None None None) = None
   \<and> adapter (example_world (Inl example_no_reply))
        (axiosInstance (example_client ''http://localhost:8002''))
        (HttpGet ''http://localhost:8002/route'' None) = Inl example_no_reply
   \<and> err_response example_no_reply = None
   \<and> err_request example_no_reply = Some (HostObject ''ClientRequest'')
   \<and> truthy (HostObject ''ClientRequest'')
   \<and> JSON_stringify_any (example_world (Inl example_no_reply)) (HostObject ''ClientRequest'')
        = None
   \<and> settled (request (example_world (Inl example_no_reply))
        (example_client ''http://localhost:8002'') (example_args None None None None))
      = Inl TypeError_Stringify
   \<and> settled (request (example_world (Inl example_no_reply_browser))
        (example_client ''http://localhost:8002'') (example_args None None None None))
      = Inl (RoutingJSAPIError ''Request failed with request {}'')"
proof -
  have p: "URL_new (example_world x)
     (baseURL (example_client ''http://localhost:8002'')
        @ endpoint (example_args None None None None))
   = Some \<lparr>url_components = ''http://localhost:8002/route'', searchParams = []\<rparr>" for x
    by (rule example_parse_ok)
  have g: "postParams (example_args None None None None) = None"
    by (simp add: example_args_sel)
  have d: "dryRun (example_args None None None None) \<noteq> Some True"
    by (simp add: example_args_sel)
  have a: "adapter (example_world (Inl x))
        (axiosInstance (example_client ''http://localhost:8002''))
        (HttpGet (URL_toString (example_world (Inl x))
            \<lparr>url_components = ''http://localhost:8002/route'', searchParams = []\<rparr>)
          (getParams (example_args None None None None))) = Inl x" for x
    by (rule example_adapter)
  have 1: "settled (request (example_world (Inl example_no_reply))
        (example_client ''http://localhost:8002'') (example_args None None None None))
      = Inl (get_catch (example_world (Inl example_no_reply)) example_no_reply)"
    by (rule request_get_rejected [OF p g d a])
  have 2: "settled (request (example_world (Inl example_no_reply_browser))
        (example_client ''http://localhost:8002'') (example_args None None None None))
      = Inl (get_catch (example_world (Inl example_no_reply_browser))
               example_no_reply_browser)"
    by (rule request_get_rejected [OF p g d a])
  have 3: "get_catch (example_world (Inl example_no_reply)) example_no_reply
      = TypeError_Stringify"
    by (rule get_catch_request_throws)
       (simp_all add: example_errors truthy_opt_def JSON_stringify_opt_def
          JSON_stringify_any_def example_JSON_stringify_host)
  have 4: "get_catch (example_world (Inl example_no_reply_browser)) example_no_reply_browser
      = RoutingJSAPIError (''Request failed with request '' @ ''{}'')"
    by (rule get_catch_request)
       (simp_all add: example_errors truthy_opt_def JSON_stringify_opt_def
          JSON_stringify_any_def example_JSON_stringify_host)
  show ?thesis
    by (simp add: 1 2 3 4 example_errors example_args_sel example_adapter
          JSON_stringify_any_def example_JSON_stringify_host)
qed

text \<open>
  C6. On the POST path (POST parameters given) a client error is never raised, whatever
  happens. When the POST call of the transport rejects, for any failure at all (with or
  without response, with or without request object), the error raised is an API error
  whose message holds the status of the response (the word \<^verbatim>\<open>undefined\<close> when there is
  no response) and the serialized failure.
\<close>

theorem post_failure_is_api_error:
  assumes "postParams a = Some pp"
  shows "(\<forall>m. settled (request w this a) \<noteq> Inl (RoutingJSClientError m))
    \<and> (\<forall>u e. URL_new w (baseURL this @ endpoint a) = Some u \<and> dryRun a \<noteq> Some True
          \<and> adapter w (axiosInstance this)
               (HttpPost (URL_toString w (url_with_auth u (auth a))) pp) = Inl e \<longrightarrow>
          (\<exists>m. settled (request w this a) = Inl (RoutingJSAPIError m)
             \<and> m = ''Request failed with status ''
                   @ template_opt string_of_nat (map_option res_status (err_response e))
                   @ '': '' @ JSON_stringify_error w e
             \<and> sublist (template_opt string_of_nat (map_option res_status (err_response e))) m
             \<and> sublist (JSON_stringify_error w e) m))"
proof (intro conjI allI impI)
  fix m
  show "settled (request w this a) \<noteq> Inl (RoutingJSClientError m)"
    using assms by (rule post_path_never_client_error)
next
  fix u e
  assume h: "URL_new w (baseURL this @ endpoint a) = Some u \<and> dryRun a \<noteq> Some True
          \<and> adapter w (axiosInstance this)
               (HttpPost (URL_toString w (url_with_auth u (auth a))) pp) = Inl e"
  then have s: "settled (request w this a) = Inl (post_catch w e)"
    using assms by (simp add: request_post_rejected)
  obtain m where "post_catch w e = RoutingJSAPIError m"
    and "m = ''Request failed with status ''
           @ template_opt string_of_nat (map_option res_status (err_response e))
           @ '': '' @ JSON_stringify_error w e"
    and "sublist (template_opt string_of_nat (map_option res_status (err_response e))) m"
    and "sublist (JSON_stringify_error w e) m"
    using post_catch_parts [of w e] by blast
  then show "\<exists>m. settled (request w this a) = Inl (RoutingJSAPIError m)
             \<and> m = ''Request failed with status ''
                   @ template_opt string_of_nat (map_option res_status (err_response e))
                   @ '': '' @ JSON_stringify_error w e
             \<and> sublist (template_opt string_of_nat (map_option res_status (err_response e))) m
             \<and> sublist (JSON_stringify_error w e) m"
    unfolding s by blast
qed

theorem post_failure_is_api_error_witness:
  "postParams (example_args None (Some (JObject [])) None None) = Some (JObject [])
   \<and> dryRun (example_args None (Some (JObject [])) None None) = None
   \<and> err_response example_setup_failure = None
   \<and> err_request example_setup_failure = None
   \<and> adapter (example_world (Inl example_setup_failure))
        (axiosInstance (example_client ''http://localhost:8002''))
        (HttpPost ''http://localhost:8002/route'' (JObject [])) = Inl example_setup_failure
   \<and> settled (request (example_world (Inl example_setup_failure))
        (example_client ''http://localhost:8002'')
        (example_args None (Some (JObject [])) None None))
      = Inl (RoutingJSAPIError ''Request failed with status undefined: {}'')
   \<and> settled (request (example_world (Inl example_rate_limited))
        (example_client ''http://localhost:8002'')
        (example_args None (Some (JObject [])) None None))
      = Inl (RoutingJSAPIError ''Request failed with status 429: {}'')"
proof -
  have p: "URL_new (example_world x)
     (baseURL (example_client ''http://localhost:8002'')
        @ endpoint (example_args None (Some (JObject [])) None None))
   = Some \<lparr>url_components = ''http://localhost:8002/route'', searchParams = []\<rparr>" for x
    by (rule example_parse_ok)
  have p': "URL_new (example_world x)
     (baseURL (example_client ''http://localhost:8002'') @ ''/route'')
   = Some \<lparr>url_components = ''http://localhost:8002/route'', searchParams = []\<rparr>" for x
    using p [of x] by (simp add: example_args_sel)
  have q: "postParams (example_args None (Some (JObject [])) None None) = Some (JObject [])"
    by (simp add: example_args_sel)
  have n: "string_of_nat 429 = ''429''"
    by code_simp
  have j: "JSON_stringify_error (example_world x) e = ''{}''" for x e
    by (simp add: example_world_def)
  from post_failure_is_api_error [OF q, of "example_world (Inl example_setup_failure)"
         "example_client ''http://localhost:8002''"]
       post_failure_is_api_error [OF q, of "example_world (Inl example_rate_limited)"
         "example_client ''http://localhost:8002''"]
  show ?thesis
    by (simp add: p' example_errors example_args_sel example_adapter n j template_opt_def)
qed

subsection \<open>Construction\<close>

text \<open>
  C7. For a client constructed with a headers map, the merged headers give every key of
  the caller's map the caller's value, also where a default (the default headers, or the
  \<^verbatim>\<open>User-Agent\<close> entry the constructor adds) has the same key; and every key the caller
  does not supply keeps its default: the constructor's \<^verbatim>\<open>User-Agent\<close> entry, and for any
  other key the entry of the default headers.
\<close>

theorem caller_headers_override_defaults:
  "(\<forall>k v. h k = Some v \<longrightarrow>
       headers (new_Client opts lib b ua t r (Some h) mr ax) k = Some v)
   \<and> (\<forall>k. h k = None \<longrightarrow>
       headers (new_Client opts lib b ua t r (Some h) mr ax) k
         = ((defaultHeaders opts)
              (''User-Agent'' \<mapsto> HeaderString
                 (case ua of None \<Rightarrow> defaultUserAgent opts | Some s \<Rightarrow> s))) k)
   \<and> (\<forall>k. h k = None \<and> k \<noteq> ''User-Agent'' \<longrightarrow>
       headers (new_Client opts lib b ua t r (Some h) mr ax) k = defaultHeaders opts k)"
  by (simp add: headers_new_Client merged_headers_def spread_headers_def map_add_def)

theorem caller_headers_override_defaults_witness:
  "example_headers ''User-Agent'' = Some (HeaderString ''my-app/1.0'')
   \<and> headers (new_Client example_options example_lib ''http://localhost:8002'' None None None
        (Some example_headers) None None) ''User-Agent'' = Some (HeaderString ''my-app/1.0'')
   \<and> example_headers ''Content-Type'' = None
   \<and> defaultHeaders example_options ''Content-Type'' = Some (HeaderString ''application/json'')
   \<and> headers (new_Client example_options example_lib ''http://localhost:8002'' None None None
        (Some example_headers) None None) ''Content-Type''
       = Some (HeaderString ''application/json'')"
proof -
  have 1: "example_headers ''User-Agent'' = Some (HeaderString ''my-app/1.0'')"
    by (simp add: example_headers_def)
  have 2: "example_headers ''Content-Type'' = None \<and> ''Content-Type'' \<noteq> ''User-Agent''"
    by (simp add: example_headers_def)
  have 3: "defaultHeaders example_options ''Content-Type''
             = Some (HeaderString ''application/json'')"
    by (simp add: example_options_def)
  from caller_headers_override_defaults [of example_headers example_options example_lib
         "''http://localhost:8002''" None None None None None]
  have "headers (new_Client example_options example_lib ''http://localhost:8002'' None None None
        (Some example_headers) None None) ''User-Agent'' = Some (HeaderString ''my-app/1.0'')"
    and "headers (new_Client example_options example_lib ''http://localhost:8002'' None None None
        (Some example_headers) None None) ''Content-Type''
       = defaultHeaders example_options ''Content-Type''"
    using 1 2 by blast+
  with 1 2 3 show ?thesis by simp
qed




subsection \<open>Auth parameters and the method\<close>

text \<open>
  C1, as stated, asks for the auth parameters in the URL on the GET path as well. The
  method appends them only inside the branch taken when POST parameters are given. At
  the input below (auth given, no POST parameters) the one call made is a GET to the
  URL without the auth pair, which differs from the URL with the pair appended.
\<close>

theorem auth_on_get_path_counterexample:
  "auth (example_args None None (Some [(''access_token'', ''abc'')]) None)
     = Some [(''access_token'', ''abc'')]
   \<and> postParams (example_args None None (Some [(''access_token'', ''abc'')]) None) = None
   \<and> URL_new (example_world example_ok)
        (baseURL (example_client ''http://localhost:8002'')
           @ endpoint (example_args None None (Some [(''access_token'', ''abc'')]) None))
      = Some \<lparr>url_components = ''http://localhost:8002/route'', searchParams = []\<rparr>
   \<and> URL_toString (example_world example_ok)
        (url_with_auth \<lparr>url_components = ''http://localhost:8002/route'', searchParams = []\<rparr>
           (auth (example_args None None (Some [(''access_token'', ''abc'')]) None)))
      = ''http://localhost:8002/route?access_token=abc''
   \<and> calls (request (example_world example_ok) (example_client ''http://localhost:8002'')
        (example_args None None (Some [(''access_token'', ''abc'')]) None))
      = [HttpGet ''http://localhost:8002/route'' None]
   \<and> map call_url (calls (request (example_world example_ok)
        (example_client ''http://localhost:8002'')
        (example_args None None (Some [(''access_token'', ''abc'')]) None)))
      \<noteq> [URL_toString (example_world example_ok)
           (url_with_auth \<lparr>url_components = ''http://localhost:8002/route'', searchParams = []\<rparr>
              (auth (example_args None None (Some [(''access_token'', ''abc'')]) None)))]"
proof -
  have c: "calls (request (example_world example_ok) (example_client ''http://localhost:8002'')
        (example_args None None (Some [(''access_token'', ''abc'')]) None))
      = [HttpGet ''http://localhost:8002/route'' None]"
    by (simp add: request_real_get [OF example_parse_ok] example_args_sel example_URL_toString)
  have t: "URL_toString (example_world example_ok)
        (url_with_auth \<lparr>url_components = ''http://localhost:8002/route'', searchParams = []\<rparr>
           (Some [(''access_token'', ''abc'')]))
      = ''http://localhost:8002/route?access_token=abc''"
    by (simp add: example_URL_toString url_with_auth_def searchParams_append_def)
  show ?thesis
    by (simp add: c t example_args_sel example_URL_new example_baseURL)
qed

text \<open>
  C1, amended. For a call whose URL parses, the URL that is used (the one the single
  network call goes to, or the one a dry run prints) is the text of the parsed URL with
  the auth pairs appended to its search parameters when POST parameters are given, and
  the text of the parsed URL itself, auth parameters or not, when they are not given.
  Appending adds the auth pairs, in order, after the search parameters already there and
  changes nothing else.
\<close>

theorem auth_appended_only_with_postParams:
  assumes "URL_new w (baseURL this @ endpoint a) = Some u"
  shows "(dryRun a \<noteq> Some True \<longrightarrow>
            map call_url (calls (request w this a))
              = [URL_toString w (if postParams a = None then u else url_with_auth u (auth a))])
    \<and> (dryRun a = Some True \<longrightarrow>
          (\<exists>m ps. settled (request w this a) =
             Inr (JString (requestInfo
               (URL_toString w (if postParams a = None then u else url_with_auth u (auth a)))
               m ps))))
    \<and> (\<forall>au. auth a = Some au \<longrightarrow>
          searchParams (url_with_auth u (auth a)) = searchParams u @ au
          \<and> url_components (url_with_auth u (auth a)) = url_components u)"
proof (intro conjI impI allI)
  assume "dryRun a \<noteq> Some True"
  with assms show "map call_url (calls (request w this a))
      = [URL_toString w (if postParams a = None then u else url_with_auth u (auth a))]"
    by (cases "postParams a") (simp_all add: request_real_get request_real_post)
next
  assume "dryRun a = Some True"
  with assms show "\<exists>m ps. settled (request w this a) =
             Inr (JString (requestInfo
               (URL_toString w (if postParams a = None then u else url_with_auth u (auth a)))
               m ps))"
    by (cases "postParams a") (auto simp add: request_dry_get request_dry_post)
next
  fix au assume "auth a = Some au"
  then show "searchParams (url_with_auth u (auth a)) = searchParams u @ au"
    by (simp add: url_with_auth_def searchParams_append_entries)
next
  fix au assume "auth a = Some au"
  then show "url_components (url_with_auth u (auth a)) = url_components u"
    by (simp add: url_with_auth_def url_components_append_entries)
qed

theorem auth_appended_only_with_postParams_witness:
  "URL_new (example_world example_ok)
     (baseURL (example_client ''http://localhost:8002'')
        @ endpoint (example_args None None (Some [(''access_token'', ''abc'')]) None))
     = Some \<lparr>url_components = ''http://localhost:8002/route'', searchParams = []\<rparr>
   \<and> dryRun (example_args None None (Some [(''access_token'', ''abc'')]) None) = None
   \<and> auth (example_args None None (Some [(''access_token'', ''abc'')]) None)
       = Some [(''access_token'', ''abc'')]
   \<and> map call_url (calls (request (example_world example_ok)
        (example_client ''http://localhost:8002'')
        (example_args None None (Some [(''access_token'', ''abc'')]) None)))
      = [''http://localhost:8002/route'']
   \<and> map call_url (calls (request (example_world example_ok)
        (example_client ''http://localhost:8002'')
        (example_args None (Some (JObject [])) (Some [(''access_token'', ''abc'')]) None)))
      = [''http://localhost:8002/route?access_token=abc'']"
proof -
  have p: "URL_new (example_world example_ok)
     (baseURL (example_client ''http://localhost:8002'') @ endpoint (example_args gp pp au dr))
     = Some \<lparr>url_components = ''http://localhost:8002/route'', searchParams = []\<rparr>"
    for gp pp au dr
    by (rule example_parse_ok)
  from auth_appended_only_with_postParams [OF p, of None None
         "Some [(''access_token'', ''abc'')]" None]
       auth_appended_only_with_postParams [OF p, of None "Some (JObject [])"
         "Some [(''access_token'', ''abc'')]" None]
  show ?thesis
    by (simp add: example_args_sel example_URL_toString example_URL_new example_baseURL
          url_with_auth_def searchParams_append_def)
qed

end
